theory Spec2Isabelle
  imports Complex_Main
begin

section \<open>JavaScript strings\<close>

text \<open>
  A JavaScript string is a sequence of UTF-16 code units. The Arabic decimal separator
  (U+066B) and the localized digit glyphs are single code units outside ASCII, so a code
  unit is a natural number here. \<open>str\<close> turns an ASCII literal into such a sequence.
\<close>

type_synonym jsstring = "nat list"

definition str :: "string \<Rightarrow> jsstring" where
  "str s = map of_char s"

text \<open>\<open>undefined\<close> converted by ToString, as in a template literal or a string argument.\<close>

definition toStr :: "jsstring option \<Rightarrow> jsstring" where
  "toStr v = (case v of None \<Rightarrow> str ''undefined'' | Some s \<Rightarrow> s)"

text \<open>Truthiness of a \<open>string | undefined | null\<close> value: present and not empty.\<close>

definition truthy :: "jsstring option \<Rightarrow> bool" where
  "truthy v = (case v of None \<Rightarrow> False | Some s \<Rightarrow> s \<noteq> [])"

text \<open>\<open>s.startsWith(pat)\<close>.\<close>

fun startsWith :: "jsstring \<Rightarrow> jsstring \<Rightarrow> bool" where
  "startsWith s [] = True"
| "startsWith [] (p # ps) = False"
| "startsWith (c # cs) (p # ps) = (c = p \<and> startsWith cs ps)"

text \<open>
  The first occurrence of \<open>pat\<close> in a string, as the text before it and the text after
  it. The empty pattern occurs at position 0.
\<close>

fun split_at_first :: "jsstring \<Rightarrow> jsstring \<Rightarrow> (jsstring \<times> jsstring) option" where
  "split_at_first pat [] = (if pat = [] then Some ([], []) else None)"
| "split_at_first pat (c # cs) =
     (if startsWith (c # cs) pat then Some ([], drop (length pat) (c # cs))
      else (case split_at_first pat cs of
              None \<Rightarrow> None
            | Some (b, a) \<Rightarrow> Some (c # b, a)))"

text \<open>
  GetSubstitution for a string pattern (no capture groups): in the replacement text
  \<open>$$\<close> is a dollar sign, \<open>$&\<close> the matched text, \<open>$`\<close> the text before the match and
  \<open>$'\<close> the text after it; every other character stands for itself.
\<close>

fun getSubstitution :: "jsstring \<Rightarrow> jsstring \<Rightarrow> jsstring \<Rightarrow> jsstring \<Rightarrow> jsstring" where
  "getSubstitution m b a [] = []"
| "getSubstitution m b a [c] = [c]"
| "getSubstitution m b a (c # d # r) =
     (if c = 36 then
        (if d = 36 then 36 # getSubstitution m b a r
         else if d = 38 then m @ getSubstitution m b a r
         else if d = 96 then b @ getSubstitution m b a r
         else if d = 39 then a @ getSubstitution m b a r
         else c # getSubstitution m b a (d # r))
      else c # getSubstitution m b a (d # r))"

text \<open>\<open>s.replace(pat, rep)\<close> with a string pattern: the first occurrence only.\<close>

definition js_replace :: "jsstring \<Rightarrow> jsstring \<Rightarrow> jsstring \<Rightarrow> jsstring" where
  "js_replace pat rep s =
     (case split_at_first pat s of
        None \<Rightarrow> s
      | Some (b, a) \<Rightarrow> b @ getSubstitution pat b a rep @ a)"

text \<open>
  \<open>s.replace(new RegExp(lit, 'g'), rep)\<close> where the pattern source \<open>lit\<close> matches itself
  literally and \<open>rep\<close> holds no dollar sign: every occurrence, left to right, without
  overlap. The empty pattern matches before every code unit and at the end.
\<close>

fun replace_all :: "jsstring \<Rightarrow> jsstring \<Rightarrow> jsstring \<Rightarrow> jsstring" where
  "replace_all [] rep s = rep @ concat (map (\<lambda>c. c # rep) s)"
| "replace_all (l # ls) rep [] = []"
| "replace_all (l # ls) rep (c # cs) =
     (if startsWith (c # cs) (l # ls) then rep @ replace_all (l # ls) rep (drop (length ls) cs)
      else c # replace_all (l # ls) rep cs)"

text \<open>\<open>s.substr(start, length)\<close>: a negative start counts from the end.\<close>

definition js_substr :: "jsstring \<Rightarrow> int \<Rightarrow> int option \<Rightarrow> jsstring" where
  "js_substr s start len =
     (let size = int (length s);
          intStart = (if start < 0 then max (size + start) 0 else min start size);
          intLength = (case len of None \<Rightarrow> size | Some l \<Rightarrow> min (max l 0) size);
          intEnd = min (intStart + intLength) size
      in take (nat (intEnd - intStart)) (drop (nat intStart) s))"

text \<open>\<open>xs.slice(start, end)\<close> on an array.\<close>

definition js_slice :: "'a list \<Rightarrow> int \<Rightarrow> int option \<Rightarrow> 'a list" where
  "js_slice xs start end =
     (let len = int (length xs);
          k = (if start < 0 then max (len + start) 0 else min start len);
          e = (case end of None \<Rightarrow> len | Some r \<Rightarrow> r);
          final = (if e < 0 then max (len + e) 0 else min e len)
      in take (nat (final - k)) (drop (nat k) xs))"

text \<open>\<open>xs.findIndex(P)\<close>: the first index whose element satisfies \<open>P\<close>, or -1.\<close>

fun findIndex :: "('a \<Rightarrow> bool) \<Rightarrow> 'a list \<Rightarrow> int" where
  "findIndex P [] = -1"
| "findIndex P (x # xs) =
     (if P x then 0 else (let i = findIndex P xs in if i < 0 then -1 else i + 1))"

text \<open>\<open>s.split(sep)[0]\<close> for a non-empty separator: the text before its first occurrence.\<close>

definition split_head :: "jsstring \<Rightarrow> jsstring \<Rightarrow> jsstring" where
  "split_head sep s = (case split_at_first sep s of None \<Rightarrow> s | Some (b, a) \<Rightarrow> b)"

definition is_ascii_digit :: "nat \<Rightarrow> bool" where
  "is_ascii_digit c = (48 \<le> c \<and> c \<le> 57)"

text \<open>\<open>String(n)\<close> for a non-negative integer: its decimal digits.\<close>

fun string_of_nat :: "nat \<Rightarrow> jsstring" where
  "string_of_nat n =
     (if n < 10 then [48 + n] else string_of_nat (n div 10) @ [48 + n mod 10])"

declare string_of_nat.simps [simp del]

section \<open>JavaScript numbers\<close>

text \<open>
  A number is a double: NaN, an infinity, negative zero or a finite value, given by the
  rational it stands for (\<open>Finite 0\<close> is positive zero). \<open>to_double\<close> rounds a
  non-negative real to the nearest double, ties to the even significand: the unit in
  the last place is \<open>2^(e - 52)\<close> for a value in \<open>[2^e, 2^(e+1))\<close>, with \<open>e\<close> at least
  -1022 (below that the doubles are subnormal), and a result of \<open>2^1024\<close> is the
  infinity. So a decimal reads as an infinity from \<open>2^1024 - 2^970\<close> on.
\<close>

datatype jsnumber = Finite rat | NegZero | PosInfinity | NegInfinity | NotANumber

text \<open>The number of binary digits of a natural number.\<close>

fun bit_length :: "nat \<Rightarrow> nat" where
  "bit_length n = (if n = 0 then 0 else Suc (bit_length (n div 2)))"

declare bit_length.simps [simp del]

text \<open>The exponent \<open>e\<close> with \<open>2^e \<le> q < 2^(e+1)\<close>, for a positive \<open>q\<close>.\<close>

definition ilog2 :: "rat \<Rightarrow> int" where
  "ilog2 q =
     (if 1 \<le> q then int (bit_length (nat \<lfloor>q\<rfloor>)) - 1
      else - int (bit_length (nat (\<lceil>1 / q\<rceil> - 1))))"

definition round_half_even :: "rat \<Rightarrow> int" where
  "round_half_even x =
     (let f = \<lfloor>x\<rfloor>; d = x - of_int f
      in if d < 1 / 2 then f else if 1 / 2 < d then f + 1 else if even f then f else f + 1)"

definition to_double :: "rat \<Rightarrow> jsnumber" where
  "to_double q =
     (if q \<le> 0 then Finite 0
      else (let e = max (ilog2 q) (- 1022);
                ulp = 2 powi (e - 52);
                r = of_int (round_half_even (q / ulp)) * ulp
            in if 2 ^ 1024 \<le> r then PosInfinity else Finite r))"

text \<open>Unary minus.\<close>

definition js_negate :: "jsnumber \<Rightarrow> jsnumber" where
  "js_negate v =
     (case v of
        Finite q \<Rightarrow> (if q = 0 then NegZero else Finite (- q))
      | NegZero \<Rightarrow> Finite 0
      | PosInfinity \<Rightarrow> NegInfinity
      | NegInfinity \<Rightarrow> PosInfinity
      | NotANumber \<Rightarrow> NotANumber)"


definition digits_value :: "jsstring \<Rightarrow> nat" where
  "digits_value ds = foldl (\<lambda>acc c. 10 * acc + (c - 48)) 0 ds"

text \<open>\<open>Number(ds)\<close> for a string of ASCII digits, as the pattern's first group is.\<close>

definition number_of_digits :: "jsstring \<Rightarrow> jsnumber" where
  "number_of_digits ds = to_double (of_nat (digits_value ds))"

text \<open>
  \<open>Number(`${negative ? '-' : ''}${i}.${f}`)\<close> for two strings of ASCII digits: a lone
  point, with or without the sign, is not a numeric literal; a negative literal of
  value zero is negative zero.
\<close>

definition number_of_literal :: "bool \<Rightarrow> jsstring \<Rightarrow> jsstring \<Rightarrow> jsnumber" where
  "number_of_literal negative i f =
     (if i = [] \<and> f = [] then NotANumber
      else (let v = to_double (of_nat (digits_value i) + of_nat (digits_value f) / 10 ^ length f)
            in if negative then js_negate v else v))"


section \<open>The host's formatting capability\<close>

datatype error = TypeError | RangeError

datatype NumberFormatStyle = Decimal | Currency | Percent | Unit

record fmt_options =
  o_style :: "NumberFormatStyle option"
  o_currency :: "jsstring option"
  o_unit :: "jsstring option"
  o_minimumFractionDigits :: "nat option"
  o_maximumFractionDigits :: "nat option"
  o_useGrouping :: "bool option"

datatype part_type =
  Literal | Integer | Group | DecimalPart | Fraction | MinusSign | PlusSign
| PercentSign | CurrencyPart | UnitPart | InfinityPart | NanPart

record part =
  part_type :: part_type
  part_value :: jsstring

text \<open>An \<open>Intl.NumberFormat\<close> object: what the constructor of the profile asks of it.\<close>

record intl_numberFormat =
  formatToParts :: "jsnumber \<Rightarrow> part list"
  resolved_minimumFractionDigits :: nat
  resolved_maximumFractionDigits :: nat

text \<open>
  The host: \<open>new Intl.NumberFormat(locale, options)\<close>, which refuses an unsupported
  combination, and \<open>value.toLocaleString(locale, options)\<close>.
\<close>

record host =
  newNumberFormat :: "jsstring option \<Rightarrow> fmt_options \<Rightarrow> error + intl_numberFormat"
  toLocaleString :: "jsnumber \<Rightarrow> jsstring option \<Rightarrow> fmt_options \<Rightarrow> error + jsstring"

definition no_options :: fmt_options where
  "no_options = \<lparr>o_style = None, o_currency = None, o_unit = None,
     o_minimumFractionDigits = None, o_maximumFractionDigits = None, o_useGrouping = None\<rparr>"

section \<open>The number format (\<open>numberFormat.ts\<close>)\<close>

definition DECIMAL_SEPARATORS :: "jsstring list" where
  "DECIMAL_SEPARATORS = [[44], [46], [1643]]"

record NumberInputOptions =
  formatStyle :: NumberFormatStyle
  opt_currency :: "jsstring option"
  opt_unit :: "jsstring option"
  opt_locale :: "jsstring option"
  precision :: "nat option"

record NumberFormat =
  locale' :: "jsstring option"
  style :: NumberFormatStyle
  currency :: "jsstring option"
  unit' :: "jsstring option"
  digits :: "jsstring list"
  decimalSymbol :: "jsstring option"
  groupingSymbol :: "jsstring option"
  minusSymbol :: "jsstring option"
  minimumFractionDigits :: nat
  maximumFractionDigits :: nat
  prefix :: jsstring
  negativePrefix :: jsstring
  suffix :: jsstring

text \<open>The probe value \<open>-123456.768\<close>: the minus of the literal \<open>123456.768\<close>.\<close>

definition probe :: jsnumber where
  "probe = js_negate (to_double (123456768 / 1000))"

text \<open>\<open>parts.find(part => part.type === t)?.value\<close>.\<close>

definition find_value :: "part_type \<Rightarrow> part list \<Rightarrow> jsstring option" where
  "find_value t parts = map_option part_value (find (\<lambda>p. part_type p = t) parts)"

text \<open>\<open>parts.map(part => part.value).join('')\<close>.\<close>

definition join_values :: "part list \<Rightarrow> jsstring" where
  "join_values parts = concat (map part_value parts)"

text \<open>The results of a list of host calls, up to the first that throws.\<close>

fun sequence_results :: "(error + 'a) list \<Rightarrow> error + 'a list" where
  "sequence_results [] = Inr []"
| "sequence_results (r # rs) =
     (case r of
        Inl e \<Rightarrow> Inl e
      | Inr x \<Rightarrow> (case sequence_results rs of Inl e \<Rightarrow> Inl e | Inr xs \<Rightarrow> Inr (x # xs)))"

definition constructor :: "host \<Rightarrow> NumberInputOptions \<Rightarrow> error + NumberFormat" where
  "constructor h options =
     (case newNumberFormat h (opt_locale options)
             (no_options\<lparr>o_currency := opt_currency options, o_unit := opt_unit options,
                o_style := Some (formatStyle options)\<rparr>) of
        Inl e \<Rightarrow> Inl e
      | Inr numberFormat \<Rightarrow>
          (let parts = formatToParts numberFormat probe in
           case sequence_results
                  (map (\<lambda>i. toLocaleString h (Finite (of_nat i)) (opt_locale options) no_options)
                     [0, 1, 2, 3, 4, 5, 6, 7, 8, 9]) of
             Inl e \<Rightarrow> Inl e
           | Inr ds \<Rightarrow>
               (let dec = find_value DecimalPart parts;
                    firstInteger = findIndex (\<lambda>p. part_type p = Integer) parts
                in Inr \<lparr>locale' = opt_locale options,
                     style = formatStyle options,
                     currency = opt_currency options,
                     unit' = opt_unit options,
                     digits = ds,
                     decimalSymbol = dec,
                     groupingSymbol = find_value Group parts,
                     minusSymbol = find_value MinusSign parts,
                     minimumFractionDigits =
                       (if dec = None then 0
                        else (case precision options of
                                Some n \<Rightarrow> n
                              | None \<Rightarrow> resolved_minimumFractionDigits numberFormat)),
                     maximumFractionDigits =
                       (if dec = None then 0
                        else (case precision options of
                                Some n \<Rightarrow> n
                              | None \<Rightarrow> resolved_maximumFractionDigits numberFormat)),
                     prefix = join_values (js_slice parts 1 (Some firstInteger)),
                     negativePrefix = join_values (js_slice parts 0 (Some firstInteger)),
                     suffix =
                       join_values
                         (js_slice parts (findIndex (\<lambda>p. part_type p = Fraction) parts + 1)
                            None)\<rparr>)))"

text \<open>
  Modelled from the spec: \<open>escapeRegExp\<close>, imported from \<open>./utils\<close>, which is not among
  the sources. Steps 6 and 7 of the parser (section 4.2) take the symbol it escapes as
  literal text, so the pattern built from its result is represented by the symbol
  itself. The spec says nothing of an absent argument: the function is declared on
  strings, and a string method called on \<open>undefined\<close> raises TypeError.
\<close>

definition escapeRegExp :: "jsstring option \<Rightarrow> error + jsstring" where
  "escapeRegExp v = (case v of None \<Rightarrow> Inl TypeError | Some s \<Rightarrow> Inr s)"

text \<open>\<open>this.digits[0]\<close>, which is \<open>undefined\<close> on an empty array.\<close>

definition digit0 :: "NumberFormat \<Rightarrow> jsstring option" where
  "digit0 nf = (case digits nf of [] \<Rightarrow> None | d # ds \<Rightarrow> Some d)"

definition isNegative :: "NumberFormat \<Rightarrow> jsstring \<Rightarrow> bool" where
  "isNegative nf s =
     (startsWith s (negativePrefix nf) \<or>
      startsWith (js_replace (str ''-'') (toStr (minusSymbol nf)) s) (toStr (minusSymbol nf)))"

definition insertPrefixOrSuffix :: "NumberFormat \<Rightarrow> jsstring \<Rightarrow> bool \<Rightarrow> jsstring" where
  "insertPrefixOrSuffix nf s negative =
     (if negative then negativePrefix nf else prefix nf) @ s @ suffix nf"

definition stripGroupingSeparator :: "NumberFormat \<Rightarrow> jsstring \<Rightarrow> error + jsstring" where
  "stripGroupingSeparator nf s =
     (case escapeRegExp (groupingSymbol nf) of
        Inl e \<Rightarrow> Inl e
      | Inr lit \<Rightarrow> Inr (replace_all lit [] s))"

definition stripMinusSymbol :: "NumberFormat \<Rightarrow> jsstring \<Rightarrow> jsstring" where
  "stripMinusSymbol nf s =
     js_replace (toStr (minusSymbol nf)) []
       (js_replace (str ''-'') (toStr (minusSymbol nf)) s)"

definition stripPrefixOrSuffix :: "NumberFormat \<Rightarrow> jsstring \<Rightarrow> jsstring" where
  "stripPrefixOrSuffix nf s =
     js_replace (suffix nf) []
       (js_replace (prefix nf) [] (js_replace (negativePrefix nf) [] s))"

definition normalizeDecimalSeparator :: "NumberFormat \<Rightarrow> jsstring \<Rightarrow> int \<Rightarrow> jsstring" where
  "normalizeDecimalSeparator nf s from =
     foldl (\<lambda>acc sep. js_substr acc 0 (Some from) @
                        js_replace sep (toStr (decimalSymbol nf)) (js_substr acc from None))
       s DECIMAL_SEPARATORS"

text \<open>
  The digit glyphs come from the host, one per digit; a glyph holds no pattern
  metacharacter, so \<open>new RegExp(digit, 'g')\<close> matches the glyph literally.
\<close>

definition normalizeDigits :: "NumberFormat \<Rightarrow> jsstring \<Rightarrow> jsstring" where
  "normalizeDigits nf s =
     (if digit0 nf \<noteq> Some (str ''0'')
      then foldl (\<lambda>acc (digit, index). replace_all digit (string_of_nat index) acc) s
             (zip (digits nf) [0 ..< length (digits nf)])
      else s)"

definition onlyDigits :: "NumberFormat \<Rightarrow> jsstring \<Rightarrow> jsstring" where
  "onlyDigits nf s = filter is_ascii_digit (normalizeDigits nf s)"

text \<open>The negated class \<open>[^...]\<close> is built from the joined glyphs.\<close>

definition onlyLocaleDigits :: "NumberFormat \<Rightarrow> jsstring \<Rightarrow> jsstring" where
  "onlyLocaleDigits nf s = filter (\<lambda>c. c \<in> set (concat (digits nf))) s"

definition toFraction :: "NumberFormat \<Rightarrow> jsstring \<Rightarrow> jsstring" where
  "toFraction nf s =
     toStr (digit0 nf) @ toStr (decimalSymbol nf) @
     js_substr (onlyLocaleDigits nf (js_substr s 1 None)) 0
       (Some (int (maximumFractionDigits nf)))"

text \<open>
  The pattern \<open>^(0|[1-9]\d*)(?:DEC(\d*))?$\<close>, with the optional group only when the
  profile has a decimal symbol. \<open>fraction_match\<close> is what follows the integer run: the
  group is tried first, then skipped. \<open>integer_backtrack\<close> gives the greedy \<open>\d*\<close> its
  longest run first, then shorter ones.
\<close>

definition fraction_match :: "jsstring option \<Rightarrow> jsstring \<Rightarrow> jsstring option option" where
  "fraction_match dec rest =
     (case dec of
        None \<Rightarrow> (if rest = [] then Some None else None)
      | Some d \<Rightarrow>
          (if startsWith rest d \<and> list_all is_ascii_digit (drop (length d) rest)
           then Some (Some (drop (length d) rest))
           else if rest = [] then Some None else None))"

fun integer_backtrack ::
  "jsstring option \<Rightarrow> jsstring \<Rightarrow> nat \<Rightarrow> (jsstring \<times> jsstring option) option" where
  "integer_backtrack dec s 0 = None"
| "integer_backtrack dec s (Suc k) =
     (case fraction_match dec (drop (Suc k) s) of
        Some f \<Rightarrow> Some (take (Suc k) s, f)
      | None \<Rightarrow> integer_backtrack dec s k)"

definition match_number ::
  "jsstring option \<Rightarrow> jsstring \<Rightarrow> (jsstring \<times> jsstring option) option" where
  "match_number dec s =
     (case s of
        [] \<Rightarrow> None
      | c # cs \<Rightarrow>
          (if c = 48 then
             (case fraction_match dec cs of Some f \<Rightarrow> Some ([c], f) | None \<Rightarrow> None)
           else if 49 \<le> c \<and> c \<le> 57 then
             integer_backtrack dec s (Suc (length (takeWhile is_ascii_digit cs)))
           else None))"

definition grouping_options :: "NumberFormat \<Rightarrow> bool \<Rightarrow> fmt_options" where
  "grouping_options nf g =
     \<lparr>o_style = Some (style nf), o_currency = currency nf, o_unit = unit' nf,
      o_minimumFractionDigits = Some 0, o_maximumFractionDigits = None,
      o_useGrouping = Some g\<rparr>"

definition isValidIntegerFormat ::
  "host \<Rightarrow> NumberFormat \<Rightarrow> jsstring \<Rightarrow> jsnumber \<Rightarrow> error + bool" where
  "isValidIntegerFormat h nf formattedNumber integerNumber =
     (case toLocaleString h integerNumber (locale' nf) (grouping_options nf True) of
        Inl e \<Rightarrow> Inl e
      | Inr grouped \<Rightarrow>
          (case toLocaleString h integerNumber (locale' nf) (grouping_options nf False) of
             Inl e \<Rightarrow> Inl e
           | Inr ungrouped \<Rightarrow>
               Inr (formattedNumber \<in> set
                      [stripPrefixOrSuffix nf (normalizeDigits nf grouped),
                       stripPrefixOrSuffix nf (normalizeDigits nf ungrouped)])))"

definition parse :: "host \<Rightarrow> NumberFormat \<Rightarrow> jsstring option \<Rightarrow> error + jsnumber option" where
  "parse h nf input =
     (if truthy input then
        (let str0 = the input;
             negative = isNegative nf str0;
             str1 = normalizeDigits nf str0;
             str2 = stripPrefixOrSuffix nf str1;
             str3 = stripMinusSymbol nf str2;
             fraction = (if truthy (decimalSymbol nf) then decimalSymbol nf else None)
         in case stripGroupingSeparator nf str3 of
              Inl e \<Rightarrow> Inl e
            | Inr stripped \<Rightarrow>
                (case match_number fraction stripped of
                   None \<Rightarrow> Inr None
                 | Some (m1, m2) \<Rightarrow>
                     (case isValidIntegerFormat h nf
                             (if truthy (decimalSymbol nf)
                              then split_head (the (decimalSymbol nf)) str3 else str3)
                             (number_of_digits m1) of
                        Inl e \<Rightarrow> Inl e
                      | Inr valid \<Rightarrow>
                          (if valid
                           then Inr (Some (number_of_literal negative (onlyDigits nf m1)
                                             (onlyDigits nf (case m2 of None \<Rightarrow> [] | Some f \<Rightarrow> f))))
                           else Inr None))))
      else Inr None)"

definition profile_options :: "NumberFormat \<Rightarrow> fmt_options" where
  "profile_options nf =
     \<lparr>o_style = Some (style nf), o_currency = currency nf, o_unit = unit' nf,
      o_minimumFractionDigits = Some (minimumFractionDigits nf),
      o_maximumFractionDigits = Some (maximumFractionDigits nf),
      o_useGrouping = None\<rparr>"

text \<open>\<open>format\<close> with its default options: the profile's own fraction bounds.\<close>

definition format :: "host \<Rightarrow> NumberFormat \<Rightarrow> jsnumber option \<Rightarrow> error + jsstring" where
  "format h nf v =
     (case v of
        None \<Rightarrow> Inr []
      | Some x \<Rightarrow> toLocaleString h x (locale' nf) (profile_options nf))"

section \<open>A host for the locale \<open>en\<close>\<close>

text \<open>
  The concrete scenarios need a host. This one has the data of the locale \<open>en\<close> only
  and uses it for every locale asked; it renders the styles Decimal and Percent, the
  style Currency for the euro and the style Unit for the gigabit, and refuses every other
  currency and unit. Digits are ASCII, groups are of three digits separated by a comma,
  the decimal symbol is a point, the minus sign is a hyphen, a percentage is the value
  times 100 followed by the percent sign, an amount in euros follows the euro sign
  (U+20AC), a number of gigabits is followed by a space and \<open>Gb\<close>. Rounding is half away
  from zero at the maximum number of fraction digits; trailing zeros go down to the
  minimum.
\<close>

fun threes :: "jsstring \<Rightarrow> jsstring list" where
  "threes (a # b # c # r) = [a, b, c] # threes r"
| "threes r = []"

definition group_digits :: "jsstring \<Rightarrow> jsstring list" where
  "group_digits ds = (let r = (length ds - 1) mod 3 + 1 in take r ds # threes (drop r ds))"

fun integer_parts :: "jsstring list \<Rightarrow> part list" where
  "integer_parts [] = []"
| "integer_parts [g] = [\<lparr>part_type = Integer, part_value = g\<rparr>]"
| "integer_parts (g # gs) =
     \<lparr>part_type = Integer, part_value = g\<rparr> # \<lparr>part_type = Group, part_value = [44]\<rparr> #
     integer_parts gs"

text \<open>The fraction digits of \<open>n / 10^k\<close>: \<open>k\<close> digits, trailing zeros cut down to \<open>m\<close>.\<close>

definition pad_left :: "nat \<Rightarrow> jsstring \<Rightarrow> jsstring" where
  "pad_left k ds = replicate (k - length ds) 48 @ ds"

definition trim_zeros :: "nat \<Rightarrow> jsstring \<Rightarrow> jsstring" where
  "trim_zeros m ds =
     take (max m (length ds - length (takeWhile (\<lambda>c. c = 48) (rev ds)))) ds"

text \<open>The fraction bounds in force: the style's defaults, moved by the options given.\<close>

definition en_bounds :: "NumberFormatStyle \<Rightarrow> fmt_options \<Rightarrow> error + (nat \<times> nat)" where
  "en_bounds st opts =
     (let dmin = (if st = Currency then 2 else 0);
          dmax = (case st of Percent \<Rightarrow> 0 | Currency \<Rightarrow> 2 | _ \<Rightarrow> 3)
      in case (o_minimumFractionDigits opts, o_maximumFractionDigits opts) of
           (None, None) \<Rightarrow> Inr (dmin, dmax)
         | (Some mn, None) \<Rightarrow> if 100 < mn then Inl RangeError else Inr (mn, max dmax mn)
         | (None, Some mx) \<Rightarrow> if 100 < mx then Inl RangeError else Inr (min dmin mx, mx)
         | (Some mn, Some mx) \<Rightarrow>
             if 100 < mn \<or> 100 < mx \<or> mx < mn then Inl RangeError else Inr (mn, mx))"

definition en_style :: "fmt_options \<Rightarrow> error + NumberFormatStyle" where
  "en_style opts =
     (case o_style opts of
        None \<Rightarrow> Inr Decimal
      | Some Decimal \<Rightarrow> Inr Decimal
      | Some Percent \<Rightarrow> Inr Percent
      | Some Currency \<Rightarrow>
          (case o_currency opts of
             None \<Rightarrow> Inl TypeError
           | Some c \<Rightarrow> if c = str ''EUR'' then Inr Currency else Inl RangeError)
      | Some Unit \<Rightarrow>
          (case o_unit opts of
             None \<Rightarrow> Inl TypeError
           | Some u \<Rightarrow> if u = str ''gigabit'' then Inr Unit else Inl RangeError))"

definition en_magnitude_parts :: "nat \<Rightarrow> nat \<Rightarrow> bool \<Rightarrow> rat \<Rightarrow> part list" where
  "en_magnitude_parts mn mx grouping x =
     (let n = nat \<lfloor>x * 10 ^ mx + 1 / 2\<rfloor>;
          ds = string_of_nat (n div 10 ^ mx);
          fr = trim_zeros mn (pad_left mx (if mx = 0 then [] else string_of_nat (n mod 10 ^ mx)))
      in integer_parts (if grouping then group_digits ds else [ds]) @
         (if fr = [] then []
          else [\<lparr>part_type = DecimalPart, part_value = [46]\<rparr>,
                \<lparr>part_type = Fraction, part_value = fr\<rparr>]))"

definition en_parts :: "NumberFormatStyle \<Rightarrow> nat \<Rightarrow> nat \<Rightarrow> bool \<Rightarrow> jsnumber \<Rightarrow> part list" where
  "en_parts st mn mx grouping v =
     (let minus = [\<lparr>part_type = MinusSign, part_value = [45]\<rparr>];
          before = (if st = Currency then [\<lparr>part_type = CurrencyPart, part_value = [8364]\<rparr>]
                    else []);
          after = (case st of
                     Percent \<Rightarrow> [\<lparr>part_type = PercentSign, part_value = [37]\<rparr>]
                   | Unit \<Rightarrow> [\<lparr>part_type = Literal, part_value = [32]\<rparr>,
                              \<lparr>part_type = UnitPart, part_value = str ''Gb''\<rparr>]
                   | _ \<Rightarrow> []);
          infinity = [\<lparr>part_type = InfinityPart, part_value = [8734]\<rparr>]
      in case v of
           NotANumber \<Rightarrow> before @ [\<lparr>part_type = NanPart, part_value = str ''NaN''\<rparr>] @ after
         | NegZero \<Rightarrow> minus @ before @ en_magnitude_parts mn mx grouping 0 @ after
         | PosInfinity \<Rightarrow> before @ infinity @ after
         | NegInfinity \<Rightarrow> minus @ before @ infinity @ after
         | Finite q \<Rightarrow>
             (let x = (if st = Percent then q * 100 else q)
              in (if x < 0 then minus else []) @ before @
                 en_magnitude_parts mn mx grouping \<bar>x\<bar> @ after))"

definition en_format :: "fmt_options \<Rightarrow> jsnumber \<Rightarrow> error + part list" where
  "en_format opts v =
     (case en_style opts of
        Inl e \<Rightarrow> Inl e
      | Inr st \<Rightarrow>
          (case en_bounds st opts of
             Inl e \<Rightarrow> Inl e
           | Inr (mn, mx) \<Rightarrow>
               Inr (en_parts st mn mx (o_useGrouping opts \<noteq> Some False) v)))"

definition host_en :: host where
  "host_en =
     \<lparr>newNumberFormat = (\<lambda>loc opts.
        case en_style opts of
          Inl e \<Rightarrow> Inl e
        | Inr st \<Rightarrow>
            (case en_bounds st opts of
               Inl e \<Rightarrow> Inl e
             | Inr (mn, mx) \<Rightarrow>
                 Inr \<lparr>formatToParts = en_parts st mn mx (o_useGrouping opts \<noteq> Some False),
                      resolved_minimumFractionDigits = mn,
                      resolved_maximumFractionDigits = mx\<rparr>)),
      toLocaleString = (\<lambda>v loc opts.
        case en_format opts v of Inl e \<Rightarrow> Inl e | Inr ps \<Rightarrow> Inr (join_values ps))\<rparr>"

definition options_en :: "NumberFormatStyle \<Rightarrow> nat option \<Rightarrow> NumberInputOptions" where
  "options_en st p =
     \<lparr>formatStyle = st, opt_currency = None, opt_unit = None,
      opt_locale = Some (str ''en''), precision = p\<rparr>"

definition options_en_eur :: NumberInputOptions where
  "options_en_eur =
     \<lparr>formatStyle = Currency, opt_currency = Some (str ''EUR''), opt_unit = None,
      opt_locale = Some (str ''en''), precision = None\<rparr>"

definition options_en_gigabit :: NumberInputOptions where
  "options_en_gigabit =
     \<lparr>formatStyle = Unit, opt_currency = None, opt_unit = Some (str ''gigabit''),
      opt_locale = Some (str ''en''), precision = None\<rparr>"

section \<open>Profiles used in the scenarios\<close>

text \<open>
  The profiles that the constructor derives on \<open>host_en\<close> for the styles Decimal and
  Percent, for the euro and for the gigabit (lemmas \<open>constructor_en_decimal\<close>,
  \<open>constructor_en_percent\<close>, \<open>constructor_en_eur\<close> and \<open>constructor_en_gigabit\<close> below), and
  a profile of a locale with Arabic-Indic digits: glyphs U+0660 to U+0669, decimal
  separator U+066B, grouping separator U+066C, minus sign U+061C U+002D.
\<close>

definition en_eur :: NumberFormat where
  "en_eur =
     \<lparr>locale' = Some (str ''en''), style = Currency, currency = Some (str ''EUR''),
      unit' = None,
      digits = map (\<lambda>c. [c]) (str ''0123456789''),
      decimalSymbol = Some (str ''.''), groupingSymbol = Some (str '',''),
      minusSymbol = Some (str ''-''), minimumFractionDigits = 2, maximumFractionDigits = 2,
      prefix = [8364], negativePrefix = [45, 8364], suffix = []\<rparr>"

definition en_gigabit :: NumberFormat where
  "en_gigabit =
     \<lparr>locale' = Some (str ''en''), style = Unit, currency = None,
      unit' = Some (str ''gigabit''),
      digits = map (\<lambda>c. [c]) (str ''0123456789''),
      decimalSymbol = Some (str ''.''), groupingSymbol = Some (str '',''),
      minusSymbol = Some (str ''-''), minimumFractionDigits = 0, maximumFractionDigits = 3,
      prefix = [], negativePrefix = str ''-'', suffix = str '' Gb''\<rparr>"

definition en_decimal :: NumberFormat where
  "en_decimal =
     \<lparr>locale' = Some (str ''en''), style = Decimal, currency = None, unit' = None,
      digits = map (\<lambda>c. [c]) (str ''0123456789''),
      decimalSymbol = Some (str ''.''), groupingSymbol = Some (str '',''),
      minusSymbol = Some (str ''-''), minimumFractionDigits = 0, maximumFractionDigits = 3,
      prefix = [], negativePrefix = str ''-'', suffix = []\<rparr>"

definition en_percent :: NumberFormat where
  "en_percent =
     \<lparr>locale' = Some (str ''en''), style = Percent, currency = None, unit' = None,
      digits = map (\<lambda>c. [c]) (str ''0123456789''),
      decimalSymbol = None, groupingSymbol = Some (str '',''),
      minusSymbol = Some (str ''-''), minimumFractionDigits = 0, maximumFractionDigits = 0,
      prefix = [], negativePrefix = str ''-'', suffix = str ''-12,345,677%''\<rparr>"

definition ar_decimal :: NumberFormat where
  "ar_decimal =
     \<lparr>locale' = Some (str ''ar-EG''), style = Decimal, currency = None, unit' = None,
      digits = map (\<lambda>c. [c]) [1632, 1633, 1634, 1635, 1636, 1637, 1638, 1639, 1640, 1641],
      decimalSymbol = Some [1643], groupingSymbol = Some [1644],
      minusSymbol = Some [1564, 45], minimumFractionDigits = 0, maximumFractionDigits = 3,
      prefix = [], negativePrefix = [1564, 45], suffix = []\<rparr>"

section \<open>The spec's wording of three operations\<close>

text \<open>
  These follow the sentences of the spec, not the code; they are what the code is
  compared with.
\<close>

text \<open>The parts strictly after the last part of type \<open>t\<close>.\<close>

definition after_last :: "part_type \<Rightarrow> part list \<Rightarrow> part list" where
  "after_last t parts = rev (takeWhile (\<lambda>p. part_type p \<noteq> t) (rev parts))"

text \<open>
  Section 4.1: the suffix is the concatenation of all parts after the last fraction-digit
  part or, if no fraction occurs, after the last integer-digit part.
\<close>

definition spec_suffix :: "part list \<Rightarrow> jsstring" where
  "spec_suffix parts =
     join_values (if \<exists>p \<in> set parts. part_type p = Fraction then after_last Fraction parts
                  else after_last Integer parts)"

text \<open>
  Section 4.4: from \<open>fromIndex\<close> onward, every occurrence of a recognized separator is
  rewritten into the profile's decimal symbol.
\<close>

definition spec_normalizeDecimalSeparator :: "NumberFormat \<Rightarrow> jsstring \<Rightarrow> nat \<Rightarrow> jsstring" where
  "spec_normalizeDecimalSeparator nf s from =
     take from s @
     concat (map (\<lambda>c. if [c] \<in> set DECIMAL_SEPARATORS then toStr (decimalSymbol nf) else [c])
               (drop from s))"

text \<open>
  Section 4.4: \<open>"0" + decimalSymbol +\<close> the fraction, filtered to the locale's digits and
  truncated to \<open>maxFractionDigits\<close>.
\<close>

definition spec_toFraction :: "NumberFormat \<Rightarrow> jsstring \<Rightarrow> jsstring" where
  "spec_toFraction nf s =
     str ''0'' @ toStr (decimalSymbol nf) @
     take (maximumFractionDigits nf) (filter (\<lambda>c. c \<in> set (concat (digits nf))) (drop 1 s))"

section \<open>Predicates of the statements\<close>

text \<open>\<open>s.includes(pat)\<close>.\<close>

definition js_includes :: "jsstring \<Rightarrow> jsstring \<Rightarrow> bool" where
  "js_includes s pat = (split_at_first pat s \<noteq> None)"




text \<open>
  The affixes do not hide in one another: a non-empty prefix does not occur in the
  suffix, a non-empty negative prefix occurs neither in the prefix nor in the suffix.
\<close>

definition affixes_apart :: "NumberFormat \<Rightarrow> bool" where
  "affixes_apart nf =
     ((prefix nf = [] \<or> \<not> js_includes (suffix nf) (prefix nf)) \<and>
      (negativePrefix nf = [] \<or>
       (\<not> js_includes (prefix nf) (negativePrefix nf) \<and>
        \<not> js_includes (suffix nf) (negativePrefix nf))))"

text \<open>A text shares no code unit with any of the three affixes.\<close>

definition affix_free :: "NumberFormat \<Rightarrow> jsstring \<Rightarrow> bool" where
  "affix_free nf d =
     list_all (\<lambda>c. c \<notin> set (negativePrefix nf) \<and> c \<notin> set (prefix nf) \<and> c \<notin> set (suffix nf)) d"





section \<open>Rounding to a double\<close>

lemma bit_length_bounds:
  assumes "0 < n"
  shows "2 ^ (bit_length n - 1) \<le> n \<and> n < 2 ^ bit_length n"
  using assms
proof (induction n rule: bit_length.induct)
  case (1 n)
  show ?case
  proof (cases "n div 2 = 0")
    case True
    with "1.prems" have "n = 1"
      by (simp add: div_eq_0_iff) 
    moreover have "bit_length (Suc 0) = Suc 0"
      by (simp add: bit_length.simps [of "Suc 0"] bit_length.simps [of 0])
    ultimately show ?thesis
      by simp
  next
    case False
    with "1.IH" "1.prems" have ih: "2 ^ (bit_length (n div 2) - 1) \<le> n div 2"
      "n div 2 < 2 ^ bit_length (n div 2)"
      by simp_all
    from False have pos: "0 < bit_length (n div 2)"
      by (simp add: bit_length.simps [of "n div 2"])
    have bl: "bit_length n = Suc (bit_length (n div 2))"
      using "1.prems" by (simp add: bit_length.simps [of n])
    from pos have "(2::nat) ^ (bit_length n - 1) = 2 * 2 ^ (bit_length (n div 2) - 1)"
      by (cases "bit_length (n div 2)") (simp_all add: bl)
    with ih(1) have "2 ^ (bit_length n - 1) \<le> 2 * (n div 2)"
      by simp
    then have lo: "2 ^ (bit_length n - 1) \<le> n"
      by linarith
    from ih(2) have "n div 2 + 1 \<le> 2 ^ bit_length (n div 2)"
      by simp
    then have "2 * (n div 2) + 2 \<le> 2 ^ bit_length n"
      by (simp add: bl)
    then have "n < 2 ^ bit_length n"
      by linarith
    with lo show ?thesis
      by simp
  qed
qed

lemma round_half_even_of_int [simp]: "round_half_even (of_int z) = z"
  by (simp add: round_half_even_def)











text \<open>Every natural number below \<open>2^53\<close> is a double.\<close>

lemma to_double_of_nat:
  assumes "n < 2 ^ 53"
  shows "to_double (of_nat n) = Finite (of_nat n)"
proof (cases "n = 0")
  case True
  then show ?thesis
    by (simp add: to_double_def)
next
  case False
  then have pos: "0 < n"
    by simp
  define b where "b = bit_length n"
  from bit_length_bounds [OF pos] have bb: "2 ^ (b - 1) \<le> n" "n < 2 ^ b"
    by (simp_all add: b_def)
  from bb(2) pos have bpos: "0 < b"
    by (cases b) simp_all
  from bb(1) assms have "(2::nat) ^ (b - 1) < 2 ^ 53"
    by linarith
  then have "b - 1 < 53"
    by (simp only: power_strict_increasing_iff [of 2] one_less_numeral_iff semiring_norm)
  with bpos have b53: "b \<le> 53"
    by simp
  define k where "k = 53 - b"
  from pos have q1: "(1::rat) \<le> of_nat n"
    by simp
  then have il: "ilog2 (of_nat n) = int b - 1"
    by (simp add: ilog2_def b_def)
  from bpos have e: "max (ilog2 (of_nat n)) (- 1022) = int b - 1"
    by (simp add: il)
  from b53 have "int b - 1 - 52 = - int k"
    by (simp add: k_def)
  then have ulp: "(2::rat) powi (max (ilog2 (of_nat n)) (- 1022) - 52) = 1 / 2 ^ k"
    by (simp only: e power_int_minus power_int_of_nat inverse_eq_divide)
  have "(of_nat n :: rat) / (1 / 2 ^ k) = of_int (int (n * 2 ^ k))"
    by simp
  then have m: "round_half_even (of_nat n / (1 / 2 ^ k)) = int (n * 2 ^ k)"
    by (simp only: round_half_even_of_int)
  have r: "(of_int (int (n * 2 ^ k)) :: rat) * (1 / 2 ^ k) = of_nat n"
    by simp
  from assms have "(of_nat n :: rat) < of_nat (2 ^ 53)"
    by (simp only: of_nat_less_iff)
  then have small: "\<not> (2::rat) ^ 1024 \<le> of_nat n"
    by simp
  from pos have "\<not> (of_nat n :: rat) \<le> 0"
    by simp
  then show ?thesis
    unfolding to_double_def Let_def ulp m r
    using small by simp
qed


lemma to_double_0: "to_double 0 = Finite 0"
  by (simp add: to_double_def)

lemma to_double_1: "to_double 1 = Finite 1"
  using to_double_of_nat [of 1] by simp

lemma floor_numeral_div: "\<lfloor>numeral a / numeral b :: rat\<rfloor> = numeral a div numeral b"
  using floor_divide_of_int_eq [of "numeral a" "numeral b", where ?'a = rat] by simp

lemma bit_length_numeral:
  "bit_length (numeral k) = Suc (bit_length (numeral k div 2))"
  by (simp add: bit_length.simps [of "numeral k"])

lemma bit_length_0: "bit_length 0 = 0"
  by (simp add: bit_length.simps [of 0])

lemma bit_length_1: "bit_length (Suc 0) = Suc 0"
  by (simp add: bit_length.simps [of "Suc 0"] bit_length_0)

text \<open>The double of the literal \<open>123456.768\<close>.\<close>

lemma probe_value: "probe = Finite (- (8483884496477749 / 2 ^ 36))"
  by (simp add: probe_def js_negate_def to_double_def ilog2_def round_half_even_def Let_def
      floor_numeral_div bit_length_numeral bit_length_0 bit_length_1)

section \<open>Evaluating the host \<open>host_en\<close>\<close>

lemma floor_one_div: "\<lfloor>1 / numeral b :: rat\<rfloor> = 1 div numeral b"
  using floor_divide_of_int_eq [of 1 "numeral b", where ?'a = rat] by simp

lemma string_of_nat_numeral:
  "string_of_nat (numeral k) =
     (if (numeral k :: nat) < 10 then [48 + numeral k]
      else string_of_nat (numeral k div 10) @ [48 + numeral k mod 10])"
  by (rule string_of_nat.simps)

lemma string_of_nat_0: "string_of_nat 0 = [48]"
  by (simp add: string_of_nat.simps)

lemma string_of_nat_1: "string_of_nat (Suc 0) = [49]"
  by (simp add: string_of_nat.simps)

lemma trim_zeros_all: "trim_zeros 0 (replicate k 48) = []"
  by (simp add: trim_zeros_def)

lemma floor_int_half: "\<lfloor>of_int z + (1 / 2 :: rat)\<rfloor> = z"
  by (rule floor_unique) simp_all

lemma round_of_nat: "nat \<lfloor>(of_nat n :: rat) * 10 ^ mx + 1 / 2\<rfloor> = n * 10 ^ mx"
proof -
  have "(of_nat n :: rat) * 10 ^ mx + 1 / 2 = of_int (int (n * 10 ^ mx)) + 1 / 2"
    by simp
  then show ?thesis
    by (simp only: floor_int_half nat_int)
qed

text \<open>A non-negative integer has no fraction digits to show.\<close>

lemma en_magnitude_of_nat:
  "en_magnitude_parts 0 mx g (of_nat n) =
     integer_parts (if g then group_digits (string_of_nat n) else [string_of_nat n])"
proof -
  have fr: "trim_zeros 0 (pad_left mx (if mx = 0 then [] else string_of_nat 0)) = []"
  proof (cases mx)
    case 0
    then show ?thesis by (simp add: pad_left_def trim_zeros_def)
  next
    case (Suc k)
    have "pad_left (Suc k) [48] = replicate (Suc k) 48"
      by (simp add: pad_left_def replicate_append_same)
    with Suc show ?thesis by (simp add: string_of_nat_0 trim_zeros_all del: replicate.simps)
  qed
  have n: "n * 10 ^ mx div 10 ^ mx = n" "n * 10 ^ mx mod 10 ^ mx = 0"
    by simp_all
  show ?thesis
    unfolding en_magnitude_parts_def Let_def round_of_nat n fr
    by simp
qed

lemma join_values_append: "join_values (a @ b) = join_values a @ join_values b"
  by (simp add: join_values_def)

text \<open>
  A natural number in any style the host has, when no fraction digit is required: the
  digits between the style's signs.
\<close>

lemma host_en_natural:
  assumes st: "en_style opts = Inr st" and bd: "en_bounds st opts = Inr (0, mx)"
  shows "toLocaleString host_en (Finite (of_nat n)) l opts =
     Inr ((if st = Currency then [8364] else []) @
          join_values (integer_parts
            (if o_useGrouping opts \<noteq> Some False
             then group_digits (string_of_nat (if st = Percent then n * 100 else n))
             else [string_of_nat (if st = Percent then n * 100 else n)])) @
          (case st of Percent \<Rightarrow> [37] | Unit \<Rightarrow> [32, 71, 98] | _ \<Rightarrow> []))"
proof -
  have m: "en_magnitude_parts 0 mx g ((of_nat n :: rat) * 100) =
      integer_parts (if g then group_digits (string_of_nat (n * 100))
                     else [string_of_nat (n * 100)])" for g
    using en_magnitude_of_nat [of mx g "n * 100"] by simp
  have "join_values (en_parts st 0 mx g (Finite (of_nat n))) =
      (if st = Currency then [8364] else []) @
      join_values (integer_parts
        (if g then group_digits (string_of_nat (if st = Percent then n * 100 else n))
         else [string_of_nat (if st = Percent then n * 100 else n)])) @
      (case st of Percent \<Rightarrow> [37] | Unit \<Rightarrow> [32, 71, 98] | _ \<Rightarrow> [])" for g
    by (cases st)
      (simp_all add: en_parts_def en_magnitude_of_nat m join_values_append,
       simp_all add: join_values_def str_def)
  then show ?thesis
    by (simp add: host_en_def en_format_def st bd)
qed

lemma host_en_integer:
  assumes "o_style opts = None \<or> o_style opts = Some Decimal"
    and "o_minimumFractionDigits opts = None \<or> o_minimumFractionDigits opts = Some 0"
    and "o_maximumFractionDigits opts = None"
  shows "toLocaleString host_en (Finite (of_nat n)) l opts =
     Inr (join_values (integer_parts
       (if o_useGrouping opts \<noteq> Some False then group_digits (string_of_nat n)
        else [string_of_nat n])))"
proof -
  have st: "en_style opts = Inr Decimal"
    using assms(1) by (auto simp: en_style_def)
  have bd: "en_bounds Decimal opts = Inr (0, 3)"
    using assms(2,3) by (auto simp: en_bounds_def)
  show ?thesis
    using host_en_natural [OF st bd, of n l] by simp
qed

lemma host_en_percent:
  assumes "o_style opts = Some Percent"
    and "o_minimumFractionDigits opts = None \<or> o_minimumFractionDigits opts = Some 0"
    and "o_maximumFractionDigits opts = None \<or> o_maximumFractionDigits opts = Some 0"
  shows "toLocaleString host_en (Finite (of_nat n)) l opts =
     Inr (join_values (integer_parts
       (if o_useGrouping opts \<noteq> Some False then group_digits (string_of_nat (n * 100))
        else [string_of_nat (n * 100)])) @ [37])"
proof -
  have st: "en_style opts = Inr Percent"
    using assms(1) by (auto simp: en_style_def)
  have bd: "en_bounds Percent opts = Inr (0, 0)"
    using assms(2,3) by (auto simp: en_bounds_def)
  show ?thesis
    using host_en_natural [OF st bd, of n l] by simp
qed


lemma host_en_unit:
  assumes "o_style opts = Some Unit" and "o_unit opts = Some (str ''gigabit'')"
    and "o_minimumFractionDigits opts = Some 0" and "o_maximumFractionDigits opts = None"
  shows "toLocaleString host_en (Finite (of_nat n)) l opts =
     Inr (join_values (integer_parts
       (if o_useGrouping opts \<noteq> Some False then group_digits (string_of_nat n)
        else [string_of_nat n])) @ [32, 71, 98])"
proof -
  have st: "en_style opts = Inr Unit"
    using assms(1,2) by (simp add: en_style_def)
  have bd: "en_bounds Unit opts = Inr (0, 3)"
    using assms(3,4) by (simp add: en_bounds_def)
  show ?thesis
    using host_en_natural [OF st bd, of n l] by simp
qed

lemmas en_eval = floor_numeral_div floor_one_div en_parts_def en_magnitude_parts_def
  string_of_nat_numeral string_of_nat_0 string_of_nat_1 group_digits_def pad_left_def
  trim_zeros_def str_def probe_value Let_def

text \<open>
  The probe on \<open>host_en\<close>: \<open>-123,456.768\<close>, as a percentage \<open>-12,345,677%\<close>, in euros
  the minus sign, the euro sign and \<open>123,456.77\<close>, in gigabits \<open>-123,456.768 Gb\<close>.
\<close>

lemma probe_en_decimal:
  "en_parts Decimal 0 3 True probe =
     [\<lparr>part_type = MinusSign, part_value = str ''-''\<rparr>,
      \<lparr>part_type = Integer, part_value = str ''123''\<rparr>,
      \<lparr>part_type = Group, part_value = str '',''\<rparr>,
      \<lparr>part_type = Integer, part_value = str ''456''\<rparr>,
      \<lparr>part_type = DecimalPart, part_value = str ''.''\<rparr>,
      \<lparr>part_type = Fraction, part_value = str ''768''\<rparr>]"
  by (simp add: en_eval)

lemma probe_en_percent:
  "en_parts Percent 0 0 True probe =
     [\<lparr>part_type = MinusSign, part_value = str ''-''\<rparr>,
      \<lparr>part_type = Integer, part_value = str ''12''\<rparr>,
      \<lparr>part_type = Group, part_value = str '',''\<rparr>,
      \<lparr>part_type = Integer, part_value = str ''345''\<rparr>,
      \<lparr>part_type = Group, part_value = str '',''\<rparr>,
      \<lparr>part_type = Integer, part_value = str ''677''\<rparr>,
      \<lparr>part_type = PercentSign, part_value = str ''%''\<rparr>]"
  by (simp add: en_eval)

lemma probe_en_eur:
  "en_parts Currency 2 2 True probe =
     [\<lparr>part_type = MinusSign, part_value = str ''-''\<rparr>,
      \<lparr>part_type = CurrencyPart, part_value = [8364]\<rparr>,
      \<lparr>part_type = Integer, part_value = str ''123''\<rparr>,
      \<lparr>part_type = Group, part_value = str '',''\<rparr>,
      \<lparr>part_type = Integer, part_value = str ''456''\<rparr>,
      \<lparr>part_type = DecimalPart, part_value = str ''.''\<rparr>,
      \<lparr>part_type = Fraction, part_value = str ''77''\<rparr>]"
  by (simp add: en_eval)

lemma probe_en_gigabit:
  "en_parts Unit 0 3 True probe =
     [\<lparr>part_type = MinusSign, part_value = str ''-''\<rparr>,
      \<lparr>part_type = Integer, part_value = str ''123''\<rparr>,
      \<lparr>part_type = Group, part_value = str '',''\<rparr>,
      \<lparr>part_type = Integer, part_value = str ''456''\<rparr>,
      \<lparr>part_type = DecimalPart, part_value = str ''.''\<rparr>,
      \<lparr>part_type = Fraction, part_value = str ''768''\<rparr>,
      \<lparr>part_type = Literal, part_value = str '' ''\<rparr>,
      \<lparr>part_type = UnitPart, part_value = str ''Gb''\<rparr>]"
  by (simp add: en_eval)

lemma en_digits:
  "map (\<lambda>i. toLocaleString host_en (Finite (of_nat i)) l no_options)
     [0, 1, 2, 3, 4, 5, 6, 7, 8, 9] =
   map (\<lambda>c. Inr [c]) (str ''0123456789'')"
proof -
  have "toLocaleString host_en (Finite (of_nat i)) l no_options =
     Inr (join_values (integer_parts (group_digits (string_of_nat i))))" for i
    by (simp add: host_en_integer no_options_def)
  then show ?thesis
    by (simp add: join_values_def group_digits_def string_of_nat_numeral string_of_nat_0
        string_of_nat_1 str_def)
qed

lemma constructor_en_decimal:
  "constructor host_en (options_en Decimal p) =
     Inr (en_decimal\<lparr>minimumFractionDigits := (case p of None \<Rightarrow> 0 | Some n \<Rightarrow> n),
                     maximumFractionDigits := (case p of None \<Rightarrow> 3 | Some n \<Rightarrow> n)\<rparr>)"
  unfolding constructor_def
  apply (simp only: en_digits options_en_def NumberInputOptions.simps)
  apply (simp add: host_en_def en_style_def en_bounds_def no_options_def probe_en_decimal)
  apply (simp add: en_decimal_def find_value_def join_values_def js_slice_def str_def
      split: option.splits)
  done

lemma constructor_en_percent: "constructor host_en (options_en Percent p) = Inr en_percent"
  unfolding constructor_def
  apply (simp only: en_digits options_en_def NumberInputOptions.simps)
  apply (simp add: host_en_def en_style_def en_bounds_def no_options_def probe_en_percent)
  apply (simp add: en_percent_def find_value_def join_values_def js_slice_def str_def
      split: option.splits)
  done

lemma constructor_en_eur: "constructor host_en options_en_eur = Inr en_eur"
  unfolding constructor_def
  apply (simp only: en_digits options_en_eur_def NumberInputOptions.simps)
  apply (simp add: host_en_def en_style_def en_bounds_def no_options_def probe_en_eur)
  apply (simp add: en_eur_def find_value_def join_values_def js_slice_def str_def)
  done

lemma constructor_en_gigabit: "constructor host_en options_en_gigabit = Inr en_gigabit"
  unfolding constructor_def
  apply (simp only: en_digits options_en_gigabit_def NumberInputOptions.simps)
  apply (simp add: host_en_def en_style_def en_bounds_def no_options_def probe_en_gigabit)
  apply (simp add: en_gigabit_def find_value_def join_values_def js_slice_def str_def)
  done

lemma en_eur_sel [simp]:
  "locale' en_eur = Some (str ''en'')" "style en_eur = Currency"
  "currency en_eur = Some (str ''EUR'')" "unit' en_eur = None"
  "digits en_eur = map (\<lambda>c. [c]) (str ''0123456789'')"
  "decimalSymbol en_eur = Some [46]" "groupingSymbol en_eur = Some [44]"
  "minusSymbol en_eur = Some [45]" "minimumFractionDigits en_eur = 2"
  "maximumFractionDigits en_eur = 2" "prefix en_eur = [8364]"
  "negativePrefix en_eur = [45, 8364]" "suffix en_eur = []"
  by (simp_all add: en_eur_def str_def)

lemma en_gigabit_sel [simp]:
  "locale' en_gigabit = Some (str ''en'')" "style en_gigabit = Unit"
  "currency en_gigabit = None" "unit' en_gigabit = Some (str ''gigabit'')"
  "digits en_gigabit = map (\<lambda>c. [c]) (str ''0123456789'')"
  "decimalSymbol en_gigabit = Some [46]" "groupingSymbol en_gigabit = Some [44]"
  "minusSymbol en_gigabit = Some [45]" "minimumFractionDigits en_gigabit = 0"
  "maximumFractionDigits en_gigabit = 3" "prefix en_gigabit = []"
  "negativePrefix en_gigabit = [45]" "suffix en_gigabit = [32, 71, 98]"
  by (simp_all add: en_gigabit_def str_def)

lemma en_decimal_sel [simp]:
  "locale' en_decimal = Some (str ''en'')" "style en_decimal = Decimal"
  "currency en_decimal = None" "unit' en_decimal = None"
  "digits en_decimal = map (\<lambda>c. [c]) (str ''0123456789'')"
  "decimalSymbol en_decimal = Some [46]" "groupingSymbol en_decimal = Some [44]"
  "minusSymbol en_decimal = Some [45]" "minimumFractionDigits en_decimal = 0"
  "maximumFractionDigits en_decimal = 3" "prefix en_decimal = []"
  "negativePrefix en_decimal = [45]" "suffix en_decimal = []"
  by (simp_all add: en_decimal_def str_def)

lemma en_percent_sel [simp]:
  "locale' en_percent = Some (str ''en'')" "style en_percent = Percent"
  "currency en_percent = None" "unit' en_percent = None"
  "digits en_percent = map (\<lambda>c. [c]) (str ''0123456789'')"
  "decimalSymbol en_percent = None" "groupingSymbol en_percent = Some [44]"
  "minusSymbol en_percent = Some [45]" "minimumFractionDigits en_percent = 0"
  "maximumFractionDigits en_percent = 0" "prefix en_percent = []"
  "negativePrefix en_percent = [45]" "suffix en_percent = str ''-12,345,677%''"
  by (simp_all add: en_percent_def str_def)

section \<open>String operations\<close>

lemma js_replace_empty [simp]: "js_replace [] [] s = s"
  by (cases s) (simp_all add: js_replace_def)

lemma js_replace_absent: "\<not> js_includes s pat \<Longrightarrow> js_replace pat rep s = s"
  by (cases "split_at_first pat s") (auto simp: js_includes_def js_replace_def)

lemma js_substr_take: "0 \<le> n \<Longrightarrow> js_substr s 0 (Some n) = take (nat n) s"
  by (simp add: js_substr_def Let_def min_def)

lemma js_substr_drop: "0 \<le> n \<Longrightarrow> js_substr s n None = drop (nat n) s"
proof (cases "n \<le> int (length s)")
  case True
  assume "0 \<le> n"
  with True have "nat (int (length s) - n) = length s - nat n"
    by linarith
  with True \<open>0 \<le> n\<close> show ?thesis
    by (simp add: js_substr_def Let_def min_def)
next
  case False
  then show ?thesis
    by (simp add: js_substr_def Let_def min_def)
qed

section \<open>Evaluating \<open>parse\<close>\<close>

lemma normalizeDigits_latin: "digit0 nf = Some (str ''0'') \<Longrightarrow> normalizeDigits nf s = s"
  by (simp add: normalizeDigits_def)

lemma digit0_en [simp]: "digit0 en_decimal = Some (str ''0'')" "digit0 en_percent = Some (str ''0'')"
  by (simp_all add: digit0_def str_def)

text \<open>An integer below \<open>2^53\<close> is a double: it is read exactly.\<close>

lemma number_of_digits_small:
  assumes "digits_value ds < 2 ^ 53"
  shows "number_of_digits ds = Finite (of_nat (digits_value ds))"
  using assms by (simp add: number_of_digits_def to_double_of_nat)

lemma isValid_en_decimal:
  "isValidIntegerFormat host_en en_decimal f (Finite (of_nat n)) =
     Inr (f = js_replace [45] []
                (concat (map part_value (integer_parts (group_digits (string_of_nat n))))) \<or>
          f = js_replace [45] [] (string_of_nat n))"
  by (simp add: isValidIntegerFormat_def host_en_integer grouping_options_def
      stripPrefixOrSuffix_def join_values_def normalizeDigits_latin)

lemmas string_eval = js_replace_def toStr_def split_head_def match_number_def fraction_match_def
  is_ascii_digit_def digits_value_def group_digits_def string_of_nat_numeral string_of_nat_0
  string_of_nat_1 str_def

text \<open>
  \<open>parse\<close> on \<open>host_en\<close> with the Decimal profile, once the stripped text \<open>t\<close> and the
  match are known.
\<close>

lemma parse_en_decimal:
  assumes "s \<noteq> []"
    and "stripMinusSymbol en_decimal (stripPrefixOrSuffix en_decimal s) = t"
    and "match_number (Some [46]) (replace_all [44] [] t) = Some (m1, m2)"
    and "digits_value m1 = n" and "n < 2 ^ 53"
  shows "parse host_en en_decimal (Some s) =
     (if split_head [46] t = js_replace [45] []
           (concat (map part_value (integer_parts (group_digits (string_of_nat n))))) \<or>
         split_head [46] t = js_replace [45] [] (string_of_nat n)
      then Inr (Some (number_of_literal (isNegative en_decimal s) (filter is_ascii_digit m1)
             (filter is_ascii_digit (case m2 of None \<Rightarrow> [] | Some f \<Rightarrow> f))))
      else Inr None)"
  using assms
  by (simp add: parse_def truthy_def stripGroupingSeparator_def escapeRegExp_def
      number_of_digits_small isValid_en_decimal onlyDigits_def normalizeDigits_latin)




text \<open>The first concrete scenario of the spec: the probe value and back.\<close>

lemma format_en_probe: "format host_en en_decimal (Some probe) = Inr (str ''-123,456.768'')"
  by (simp add: format_def profile_options_def host_en_def en_format_def en_style_def
      en_bounds_def probe_en_decimal join_values_def str_def)

lemma parse_en_probe:
  "parse host_en en_decimal (Some (str ''-123,456.768'')) = Inr (Some probe)"
  by (subst parse_en_decimal [where t = "str ''123,456.768''" and ?m1.0 = "str ''123456''"
        and ?m2.0 = "Some (str ''768'')" and n = 123456])
     (simp_all add: stripMinusSymbol_def stripPrefixOrSuffix_def isNegative_def string_eval
       number_of_literal_def probe_def)

lemma parse_throws_without_groupingSymbol:
  assumes "truthy input" and "groupingSymbol nf = None"
  shows "parse h nf input = Inl TypeError"
  using assms
  by (simp add: parse_def Let_def stripGroupingSeparator_def escapeRegExp_def)

text \<open>
  With a grouping symbol and a host that renders the two canonical forms, \<open>parse\<close>
  returns normally.
\<close>

lemma parse_returns_with_groupingSymbol:
  assumes "groupingSymbol nf \<noteq> None"
    and "\<And>v g. \<exists>r. toLocaleString h v (locale' nf) (grouping_options nf g) = Inr r"
  shows "\<exists>r. parse h nf input = Inr r"
proof -
  obtain g where g: "groupingSymbol nf = Some g"
    using assms(1) by auto
  have valid: "\<exists>b. isValidIntegerFormat h nf f v = Inr b" for f v
  proof -
    obtain r1 where "toLocaleString h v (locale' nf) (grouping_options nf True) = Inr r1"
      using assms(2) by blast
    moreover obtain r2 where "toLocaleString h v (locale' nf) (grouping_options nf False) = Inr r2"
      using assms(2) by blast
    ultimately show ?thesis
      by (simp add: isValidIntegerFormat_def)
  qed
  show ?thesis
  proof (cases "truthy input")
    case False
    then show ?thesis by (simp add: parse_def)
  next
    case True
    define t where "t = stripMinusSymbol nf (stripPrefixOrSuffix nf (normalizeDigits nf (the input)))"
    define fraction where "fraction = (if truthy (decimalSymbol nf) then decimalSymbol nf else None)"
    show ?thesis
    proof (cases "match_number fraction (replace_all g [] t)")
      case None
      with True show ?thesis
        by (simp add: parse_def Let_def stripGroupingSeparator_def escapeRegExp_def g t_def
            fraction_def)
    next
      case (Some m)
      obtain m1 m2 where m: "m = (m1, m2)"
        by (cases m)
      obtain b where "isValidIntegerFormat h nf
          (if truthy (decimalSymbol nf) then split_head (the (decimalSymbol nf)) t else t)
          (number_of_digits m1) = Inr b"
        using valid by blast
      with True Some m show ?thesis
        by (auto simp: parse_def Let_def stripGroupingSeparator_def escapeRegExp_def g t_def
            fraction_def split: if_splits)
    qed
  qed
qed

section \<open>What the string operations keep\<close>

lemma startsWith_Nil [simp]: "startsWith [] p = (p = [])"
  by (cases p) simp_all

lemma startsWith_append: "startsWith s pat \<Longrightarrow> s = pat @ drop (length pat) s"
  by (induction s pat rule: startsWith.induct) simp_all


lemma split_at_first_append: "split_at_first pat s = Some (b, a) \<Longrightarrow> s = b @ pat @ a"
proof (induction s arbitrary: b)
  case Nil
  then show ?case by (simp split: if_splits)
next
  case (Cons c cs)
  show ?case
  proof (cases "startsWith (c # cs) pat")
    case True
    with Cons.prems startsWith_append [OF True] show ?thesis
      by simp
  next
    case False
    with Cons.prems obtain b' where "split_at_first pat cs = Some (b', a)" "b = c # b'"
      by (auto split: option.splits)
    with Cons.IH show ?thesis
      by simp
  qed
qed







section \<open>What the pattern matches\<close>







section \<open>Finite results\<close>





section \<open>Digit normalization on plain profiles\<close>


















section \<open>Steps of \<open>normalizeDecimalSeparator\<close>\<close>

lemma normalize_step:
  assumes "0 \<le> from"
  shows "js_substr (take (nat from) s @ r) 0 (Some from) @
         js_replace sep d (js_substr (take (nat from) s @ r) from None) =
         take (nat from) s @ js_replace sep d r \<or> (length s < nat from \<and> r \<noteq> [])"
proof (cases "nat from \<le> length s")
  case True
  then have "length (take (nat from) s) = nat from"
    by simp
  then show ?thesis
    using assms by (simp add: js_substr_take js_substr_drop)
next
  case False
  show ?thesis
  proof (cases "r = []")
    case True
    with False assms show ?thesis
      by (simp add: js_substr_take js_substr_drop)
  next
    case False
    with \<open>\<not> nat from \<le> length s\<close> show ?thesis
      by simp
  qed
qed

lemma js_replace_Nil: "sep \<noteq> [] \<Longrightarrow> js_replace sep d [] = []"
  by (simp add: js_replace_def)

section \<open>Stripping what was inserted\<close>

lemma startsWith_self: "startsWith (pat @ r) pat"
  by (induction pat) simp_all

lemma split_at_first_front: "split_at_first pat (pat @ r) = Some ([], r)"
proof (cases "pat @ r")
  case Nil
  then show ?thesis by simp
next
  case (Cons c cs)
  have "startsWith (pat @ r) pat"
    by (rule startsWith_self)
  with Cons have "split_at_first pat (pat @ r) = Some ([], drop (length pat) (pat @ r))"
    by simp
  then show ?thesis by simp
qed

lemma js_replace_front: "js_replace pat [] (pat @ r) = r"
  by (simp add: js_replace_def split_at_first_front)

lemma js_includes_append:
  assumes "js_includes s pat"
  shows "\<exists>b a. s = b @ pat @ a"
proof -
  from assms obtain b a where "split_at_first pat s = Some (b, a)"
    by (auto simp: js_includes_def)
  then have "s = b @ pat @ a"
    by (rule split_at_first_append)
  then show ?thesis by blast
qed

lemma js_includes_intro: "js_includes (b @ pat @ a) pat"
proof (induction b)
  case Nil
  then show ?case by (simp add: js_includes_def split_at_first_front)
next
  case (Cons c b)
  then show ?case
    by (auto simp: js_includes_def split: option.splits)
qed

text \<open>
  An occurrence of a pattern in \<open>x @ d @ y\<close>, where the non-empty \<open>d\<close> shares no code unit
  with the pattern, lies in \<open>x\<close> or in \<open>y\<close>.
\<close>

lemma js_includes_around:
  assumes inc: "js_includes (x @ d @ y) pat" and pat: "pat \<noteq> []" and d: "d \<noteq> []"
    and apart: "set pat \<inter> set d = {}"
  shows "js_includes x pat \<or> js_includes y pat"
proof -
  from js_includes_append [OF inc] obtain b a where eq: "x @ d @ y = b @ pat @ a"
    by blast
  from eq [unfolded append_eq_append_conv2 [of x "d @ y" b "pat @ a"]]
  obtain us where us: "(x = b @ us \<and> us @ d @ y = pat @ a) \<or> (x @ us = b \<and> d @ y = us @ pat @ a)"
    by blast
  then show ?thesis
  proof
    assume 1: "x = b @ us \<and> us @ d @ y = pat @ a"
    then have "us @ (d @ y) = pat @ a" by simp
    then obtain vs where vs: "(us = pat @ vs \<and> vs @ d @ y = a) \<or> (us @ vs = pat \<and> d @ y = vs @ a)"
      unfolding append_eq_append_conv2 [of us "d @ y" pat a] by blast
    then show ?thesis
    proof
      assume "us = pat @ vs \<and> vs @ d @ y = a"
      with 1 have "x = b @ pat @ vs" by simp
      then show ?thesis
        using js_includes_intro [of b pat vs] by simp
    next
      assume 2: "us @ vs = pat \<and> d @ y = vs @ a"
      show ?thesis
      proof (cases vs)
        case Nil
        with 1 2 have "x = b @ pat @ []" by simp
        then show ?thesis
          using js_includes_intro [of b pat "[]"] by simp
      next
        case (Cons v vs')
        with 2 d have "hd d = v"
          by (cases d) auto
        with d have "v \<in> set d"
          by (cases d) auto
        moreover from 2 Cons have "v \<in> set pat"
          by auto
        ultimately show ?thesis
          using apart by blast
      qed
    qed
  next
    assume 1: "x @ us = b \<and> d @ y = us @ pat @ a"
    then have "d @ y = us @ (pat @ a)" by simp
    then obtain ws where ws: "(d = us @ ws \<and> ws @ y = pat @ a) \<or> (d @ ws = us \<and> y = ws @ pat @ a)"
      unfolding append_eq_append_conv2 [of d y us "pat @ a"] by blast
    then show ?thesis
    proof
      assume 2: "d = us @ ws \<and> ws @ y = pat @ a"
      show ?thesis
      proof (cases ws)
        case Nil
        with 2 have "y = [] @ pat @ a" by simp
        then show ?thesis
          using js_includes_intro [of "[]" pat a] by simp
      next
        case (Cons w ws')
        with 2 pat have "hd pat = w"
          by (cases pat) auto
        with pat have "w \<in> set pat"
          by (cases pat) auto
        moreover from 2 Cons have "w \<in> set d"
          by auto
        ultimately show ?thesis
          using apart by blast
      qed
    next
      assume "d @ ws = us \<and> y = ws @ pat @ a"
      then show ?thesis
        using js_includes_intro [of ws pat a] by simp
    qed
  qed
qed

lemma js_includes_Nil: "pat \<noteq> [] \<Longrightarrow> \<not> js_includes [] pat"
  by (simp add: js_includes_def)

lemma js_includes_apart:
  assumes "pat \<noteq> []" and "set pat \<inter> set d = {}"
  shows "\<not> js_includes d pat"
proof
  assume "js_includes d pat"
  from js_includes_append [OF this] obtain b a where "d = b @ pat @ a"
    by blast
  then have "set pat \<subseteq> set d"
    by auto
  with assms show False
    by (cases pat) auto
qed

lemma split_at_first_back:
  assumes "pat \<noteq> []" and "set pat \<inter> set d = {}"
  shows "split_at_first pat (d @ pat) = Some (d, [])"
  using assms(2)
proof (induction d)
  case Nil
  then show ?case
    using split_at_first_front [of pat "[]"] by simp
next
  case (Cons c d)
  from assms(1) obtain p ps where p: "pat = p # ps"
    by (cases pat) auto
  with Cons.prems have "c \<noteq> p"
    by auto
  with p have "\<not> startsWith (c # d @ pat) pat"
    by simp
  moreover from Cons have "split_at_first pat (d @ pat) = Some (d, [])"
    by simp
  ultimately show ?case
    by simp
qed

lemma js_replace_back:
  assumes "set pat \<inter> set d = {}"
  shows "js_replace pat [] (d @ pat) = d"
proof (cases "pat = []")
  case True
  then show ?thesis by simp
next
  case False
  from split_at_first_back [OF False assms] show ?thesis
    by (simp add: js_replace_def)
qed

lemma affix_free_sets:
  assumes "affix_free nf d"
  shows "set (negativePrefix nf) \<inter> set d = {}" "set (prefix nf) \<inter> set d = {}"
    "set (suffix nf) \<inter> set d = {}"
  using assms by (auto simp: affix_free_def list_all_iff)

text \<open>Stripping undoes \<open>insertPrefixOrSuffix\<close> and leaves a bare number text alone.\<close>

lemma strip_bare:
  assumes "affix_free nf d"
  shows "stripPrefixOrSuffix nf d = d"
proof -
  have "js_replace pat [] d = d" if "set pat \<inter> set d = {}" for pat
  proof (cases "pat = []")
    case True
    then show ?thesis by simp
  next
    case False
    from js_includes_apart [OF False that] show ?thesis
      by (rule js_replace_absent)
  qed
  with affix_free_sets [OF assms] show ?thesis
    by (simp add: stripPrefixOrSuffix_def)
qed

lemma strip_insert:
  assumes d: "d \<noteq> []" and free: "affix_free nf d" and apart: "affixes_apart nf"
  shows "stripPrefixOrSuffix nf (insertPrefixOrSuffix nf d negative) = d"
proof -
  note sets = affix_free_sets [OF free]
  have suffix: "js_replace (suffix nf) [] (d @ suffix nf) = d"
    using sets(3) by (rule js_replace_back)
  show ?thesis
  proof (cases negative)
    case True
    have 1: "js_replace (negativePrefix nf) [] (negativePrefix nf @ d @ suffix nf) = d @ suffix nf"
      by (rule js_replace_front)
    have 2: "js_replace (prefix nf) [] (d @ suffix nf) = d @ suffix nf"
    proof (cases "prefix nf = []")
      case True
      then show ?thesis by simp
    next
      case False
      with apart have no: "\<not> js_includes (suffix nf) (prefix nf)"
        by (simp add: affixes_apart_def)
      have "\<not> js_includes ([] @ d @ suffix nf) (prefix nf)"
        using js_includes_around [OF _ False d sets(2), of "[]" "suffix nf"] no
          js_includes_Nil [OF False] by blast
      then show ?thesis
        by (simp add: js_replace_absent)
    qed
    from True show ?thesis
      by (simp add: stripPrefixOrSuffix_def insertPrefixOrSuffix_def 1 2 suffix)
  next
    case False
    have 1: "js_replace (negativePrefix nf) [] (prefix nf @ d @ suffix nf) =
        prefix nf @ d @ suffix nf"
    proof (cases "negativePrefix nf = []")
      case True
      then show ?thesis by simp
    next
      case False
      with apart have no: "\<not> js_includes (prefix nf) (negativePrefix nf)"
          "\<not> js_includes (suffix nf) (negativePrefix nf)"
        by (simp_all add: affixes_apart_def)
      have "\<not> js_includes (prefix nf @ d @ suffix nf) (negativePrefix nf)"
        using js_includes_around [OF _ False d sets(1), of "prefix nf" "suffix nf"] no
        by blast
      then show ?thesis
        by (rule js_replace_absent)
    qed
    have 2: "js_replace (prefix nf) [] (prefix nf @ d @ suffix nf) = d @ suffix nf"
      by (rule js_replace_front)
    from False show ?thesis
      by (simp add: stripPrefixOrSuffix_def insertPrefixOrSuffix_def 1 2 suffix)
  qed
qed

lemma affixes_apart_en [simp]:
  "affixes_apart en_decimal" "affixes_apart en_eur" "affixes_apart en_gigabit"
  by (simp_all add: affixes_apart_def js_includes_def)

section \<open>Texts of digits and grouping symbols\<close>




lemma digits_value_snoc: "digits_value (ds @ [c]) = 10 * digits_value ds + (c - 48)"
  by (simp add: digits_value_def)

lemma digits_value_string_of_nat: "digits_value (string_of_nat n) = n"
proof (induction n rule: string_of_nat.induct)
  case (1 n)
  show ?case
  proof (cases "n < 10")
    case True
    then show ?thesis
      by (simp add: string_of_nat.simps [of n] digits_value_def)
  next
    case False
    with 1 have "digits_value (string_of_nat (n div 10)) = n div 10" by simp
    with False show ?thesis
      by (simp add: string_of_nat.simps [of n] digits_value_snoc)
  qed
qed








section \<open>Parsing a text of digits and grouping symbols\<close>











section \<open>The claims\<close>

text \<open>
  C1. Round trip. On \<open>host_en\<close> the Percent profile formats the value 1 as \<open>100%\<close> and
  parses that text to \<open>null\<close>: the suffix of the profile is the whole probe text (see
  C8), so the percent sign is never stripped and the pattern does not match.
\<close>

theorem round_trip_fails_for_percent:
  "constructor host_en (options_en Percent None) = Inr en_percent \<and>
   format host_en en_percent (Some (Finite 1)) = Inr (str ''100%'') \<and>
   parse host_en en_percent (Some (str ''100%'')) = Inr None"
proof -
  have f: "format host_en en_percent (Some (Finite 1)) = Inr (str ''100%'')"
    using host_en_percent [of "profile_options en_percent" 1 "locale' en_percent"]
    by (simp add: format_def profile_options_def join_values_def string_eval)
  have p: "parse host_en en_percent (Some (str ''100%'')) = Inr None"
    by (simp add: parse_def truthy_def Let_def normalizeDigits_latin stripPrefixOrSuffix_def
        stripMinusSymbol_def stripGroupingSeparator_def escapeRegExp_def string_eval)
  show ?thesis
    using f p by (simp add: constructor_en_percent)
qed

text \<open>
  With the suffix \<open>%\<close> that the spec describes the text is still refused: the integer
  100 is rendered for comparison as a percentage, \<open>10,000%\<close>, since neither \<open>parse\<close> nor
  \<open>isValidIntegerFormat\<close> scales a Percent value by 100.
\<close>

lemma round_trip_fails_for_percent_with_spec_suffix:
  "parse host_en (en_percent\<lparr>suffix := str ''%''\<rparr>) (Some (str ''100%'')) = Inr None"
proof -
  define nf where "nf = en_percent\<lparr>suffix := str ''%''\<rparr>"
  have sel: "digit0 nf = Some (str ''0'')" "negativePrefix nf = [45]" "prefix nf = []"
    "suffix nf = [37]" "minusSymbol nf = Some [45]" "groupingSymbol nf = Some [44]"
    "decimalSymbol nf = None" "style nf = Percent"
    by (simp_all add: nf_def digit0_def str_def)
  have r: "toLocaleString host_en (Finite 100) (locale' nf) (grouping_options nf g) =
      Inr (if g then str ''10,000%'' else str ''10000%'')" for g
    using host_en_percent [of "grouping_options nf g" 100 "locale' nf"]
    by (simp add: grouping_options_def sel join_values_def string_eval)
  have v: "isValidIntegerFormat host_en nf (str ''100'') (Finite 100) = Inr False"
    by (simp add: isValidIntegerFormat_def r normalizeDigits_latin sel stripPrefixOrSuffix_def
        string_eval)
  have n: "number_of_digits (str ''100'') = Finite 100"
    by (subst number_of_digits_small) (simp_all add: string_eval)
  have "parse host_en nf (Some (str ''100%'')) = Inr None"
    unfolding parse_def Let_def
    by (simp add: truthy_def normalizeDigits_latin sel stripPrefixOrSuffix_def
        stripMinusSymbol_def stripGroupingSeparator_def escapeRegExp_def string_eval
        takeWhile.simps v [unfolded str_def, simplified] n [unfolded str_def, simplified])
  then show ?thesis
    by (simp add: nf_def)
qed




text \<open>
  C3. \<open>parse\<close> never throws. \<open>stripGroupingSeparator\<close> hands the grouping symbol to
  \<open>escapeRegExp\<close> without the test that \<open>parse\<close> makes for the decimal symbol, so a
  profile without grouping symbol makes every non-empty input throw.
\<close>

theorem parse_throws_on_absent_groupingSymbol:
  "parse host_en (en_decimal\<lparr>groupingSymbol := None\<rparr>) (Some (str ''1'')) = Inl TypeError"
  by (rule parse_throws_without_groupingSymbol) (simp_all add: truthy_def str_def)

text \<open>
  C4. Null propagation: for every profile (and every host), \<open>parse\<close> of \<open>null\<close> and
  \<open>parse\<close> of the empty string return \<open>null\<close>.
\<close>

theorem parse_null_propagation:
  "parse h nf None = Inr None \<and> parse h nf (Some []) = Inr None"
  by (simp add: parse_def truthy_def)

text \<open>
  C5. Idempotence of affix stripping. \<open>stripPrefixOrSuffix\<close> removes one occurrence of
  each affix, so a second pass can remove another one: with the Decimal profile of
  \<open>en\<close>, whose negative prefix is the hyphen, \<open>--5\<close> becomes \<open>-5\<close> and then \<open>5\<close>.
\<close>

theorem stripPrefixOrSuffix_not_idempotent:
  "stripPrefixOrSuffix en_decimal (str ''--5'') = str ''-5'' \<and>
   stripPrefixOrSuffix en_decimal (stripPrefixOrSuffix en_decimal (str ''--5'')) = str ''5''"
  by (simp add: stripPrefixOrSuffix_def js_replace_def str_def)

text \<open>
  C5, amended. Let the affixes of the profile be apart, and let \<open>d\<close> be a non-empty text
  that shares no code unit with them. Then \<open>stripPrefixOrSuffix\<close> undoes
  \<open>insertPrefixOrSuffix\<close> on \<open>d\<close>, for a negative and for a non-negative number, and
  leaves \<open>d\<close> itself unchanged; so on such a formatted text a second pass changes
  nothing.
\<close>

theorem stripPrefixOrSuffix_of_formatted:
  assumes "d \<noteq> []" and "affix_free nf d" and "affixes_apart nf"
  shows "stripPrefixOrSuffix nf (insertPrefixOrSuffix nf d negative) = d \<and>
         stripPrefixOrSuffix nf d = d \<and>
         stripPrefixOrSuffix nf (stripPrefixOrSuffix nf (insertPrefixOrSuffix nf d negative)) =
           stripPrefixOrSuffix nf (insertPrefixOrSuffix nf d negative)"
  using assms by (simp add: strip_insert strip_bare)

theorem stripPrefixOrSuffix_of_formatted_witness:
  "str ''1,234.50'' \<noteq> [] \<and> affix_free en_eur (str ''1,234.50'') \<and> affixes_apart en_eur \<and>
   insertPrefixOrSuffix en_eur (str ''1,234.50'') True = [45, 8364] @ str ''1,234.50'' \<and>
   stripPrefixOrSuffix en_eur ([45, 8364] @ str ''1,234.50'') = str ''1,234.50'' \<and>
   stripPrefixOrSuffix en_eur (str ''1,234.50'') = str ''1,234.50'' \<and>
   stripPrefixOrSuffix en_eur (stripPrefixOrSuffix en_eur ([45, 8364] @ str ''1,234.50'')) =
     stripPrefixOrSuffix en_eur ([45, 8364] @ str ''1,234.50'') \<and>
   affix_free en_gigabit (str ''1,234.5'') \<and> affixes_apart en_gigabit \<and>
   insertPrefixOrSuffix en_gigabit (str ''1,234.5'') False = str ''1,234.5 Gb'' \<and>
   stripPrefixOrSuffix en_gigabit (str ''1,234.5 Gb'') = str ''1,234.5''"
proof -
  have a: "str ''1,234.50'' \<noteq> []" "affix_free en_eur (str ''1,234.50'')"
    by (simp_all add: affix_free_def str_def)
  have b: "str ''1,234.5'' \<noteq> []" "affix_free en_gigabit (str ''1,234.5'')"
    by (simp_all add: affix_free_def str_def)
  have i: "insertPrefixOrSuffix en_eur (str ''1,234.50'') True = [45, 8364] @ str ''1,234.50''"
    "insertPrefixOrSuffix en_gigabit (str ''1,234.5'') False = str ''1,234.5 Gb''"
    by (simp_all add: insertPrefixOrSuffix_def str_def)
  show ?thesis
    using stripPrefixOrSuffix_of_formatted [OF a affixes_apart_en(2), of True]
      stripPrefixOrSuffix_of_formatted [OF b affixes_apart_en(3), of False] a b
    unfolding i by simp
qed

text \<open>
  C6. \<open>normalizeDecimalSeparator\<close> calls \<open>replace\<close> with a string pattern, once for each
  separator, so only the first occurrence of each is rewritten. With the Decimal profile
  of \<open>en\<close> and \<open>fromIndex = 0\<close>, the text \<open>1,2,3\<close> becomes \<open>1.2,3\<close>: the second comma
  stays, where rewriting every occurrence gives \<open>1.2.3\<close>.
\<close>

theorem normalizeDecimalSeparator_keeps_second_occurrence:
  "normalizeDecimalSeparator en_decimal (str ''1,2,3'') 0 = str ''1.2,3'' \<and>
   spec_normalizeDecimalSeparator en_decimal (str ''1,2,3'') 0 = str ''1.2.3''"
  by (simp add: normalizeDecimalSeparator_def spec_normalizeDecimalSeparator_def
      DECIMAL_SEPARATORS_def js_substr_def js_replace_def toStr_def str_def)

text \<open>
  C6, amended. For a non-negative \<open>fromIndex\<close> the text before it is kept, and in the
  text from it on the first comma, then the first period, then the first Arabic decimal
  separator is replaced by the decimal symbol, each on the result of the step before.
\<close>

theorem normalizeDecimalSeparator_first_occurrences:
  assumes "0 \<le> from" and "decimalSymbol nf = Some d"
  shows "normalizeDecimalSeparator nf s from =
     take (nat from) s @
     js_replace [1643] d (js_replace [46] d (js_replace [44] d (drop (nat from) s)))"
proof (cases "nat from \<le> length s")
  case True
  have step: "js_substr (take (nat from) s @ r) 0 (Some from) @
      js_replace sep d (js_substr (take (nat from) s @ r) from None) =
      take (nat from) s @ js_replace sep d r" for r sep
    using normalize_step [OF assms(1), of s r sep d] True by simp
  have "normalizeDecimalSeparator nf (take (nat from) s @ drop (nat from) s) from =
     take (nat from) s @
     js_replace [1643] d (js_replace [46] d (js_replace [44] d (drop (nat from) s)))"
    unfolding normalizeDecimalSeparator_def DECIMAL_SEPARATORS_def
    by (simp only: foldl.simps step assms(2) toStr_def option.case)
  then show ?thesis
    by simp
next
  case False
  then have long: "take (nat from) s = s" "drop (nat from) s = []"
    by simp_all
  have step: "js_substr s 0 (Some from) @ js_replace [c] d (js_substr s from None) = s" for c
    using assms(1) long by (simp add: js_substr_take js_substr_drop js_replace_Nil)
  have "normalizeDecimalSeparator nf s from = s"
    unfolding normalizeDecimalSeparator_def DECIMAL_SEPARATORS_def
    by (simp only: foldl.simps step assms(2) toStr_def option.case)
  then show ?thesis
    by (simp add: long js_replace_Nil)
qed

theorem normalizeDecimalSeparator_first_occurrences_witness:
  "(0::int) \<le> 2 \<and> decimalSymbol en_decimal = Some (str ''.'') \<and>
   normalizeDecimalSeparator en_decimal (str ''1,2,3,4'') 2 = str ''1,2.3,4''"
proof -
  have d: "decimalSymbol en_decimal = Some (str ''.'')"
    by (simp add: str_def)
  have "normalizeDecimalSeparator en_decimal (str ''1,2,3,4'') 2 =
     take (nat 2) (str ''1,2,3,4'') @
     js_replace [1643] (str ''.'')
       (js_replace [46] (str ''.'') (js_replace [44] (str ''.'') (drop (nat 2) (str ''1,2,3,4''))))"
    using normalizeDecimalSeparator_first_occurrences [of 2 en_decimal "str ''.''" "str ''1,2,3,4''"] d
    by simp
  then show ?thesis
    by (simp add: js_replace_def str_def)
qed

text \<open>
  C7. \<open>toFraction\<close> starts with the profile's own glyph for zero, \<open>digits[0]\<close>, not with
  the ASCII digit: with Arabic-Indic digits the text U+066B U+0665 gives
  U+0660 U+066B U+0665, where the spec's wording gives \<open>0\<close> U+066B U+0665.
\<close>

theorem toFraction_arabic_zero:
  "toFraction ar_decimal [1643, 1637] = [1632, 1643, 1637] \<and>
   spec_toFraction ar_decimal [1643, 1637] = [48, 1643, 1637]"
  by (simp add: toFraction_def spec_toFraction_def ar_decimal_def digit0_def toStr_def
      onlyLocaleDigits_def js_substr_def str_def)

text \<open>
  C7, amended. For a profile with a decimal symbol and its digit glyphs, the result is the
  glyph for zero, the decimal symbol and then the text after its first code unit,
  filtered to the code units of the digit glyphs and cut to \<open>maximumFractionDigits\<close>; when
  the glyph for zero is the ASCII digit this is the spec's wording.
\<close>

theorem toFraction_locale_zero:
  assumes "decimalSymbol nf = Some d" and "digits nf = z # zs"
  shows "toFraction nf s =
           z @ d @ take (maximumFractionDigits nf)
                     (filter (\<lambda>c. c \<in> set (concat (digits nf))) (drop 1 s)) \<and>
         (z = str ''0'' \<longrightarrow> toFraction nf s = spec_toFraction nf s)"
proof -
  have a: "js_substr s 1 None = drop 1 s"
    using js_substr_drop [of 1 s] by simp
  have b: "js_substr t 0 (Some (int k)) = take k t" for t k
    using js_substr_take [of "int k" t] by simp
  show ?thesis
    by (simp add: toFraction_def spec_toFraction_def onlyLocaleDigits_def digit0_def toStr_def
        assms a b)
qed

theorem toFraction_locale_zero_witness:
  "decimalSymbol en_decimal = Some (str ''.'') \<and>
   digits en_decimal = str ''0'' # map (\<lambda>c. [c]) (str ''123456789'') \<and>
   toFraction en_decimal (str ''.12x3456'') = str ''0.123'' \<and>
   toFraction en_decimal (str ''.12x3456'') = spec_toFraction en_decimal (str ''.12x3456'')"
proof -
  have d: "decimalSymbol en_decimal = Some (str ''.'')"
    by (simp add: str_def)
  have g: "digits en_decimal = str ''0'' # map (\<lambda>c. [c]) (str ''123456789'')"
    by (simp add: str_def)
  note t = toFraction_locale_zero [OF d g, of "str ''.12x3456''"]
  have v: "toFraction en_decimal (str ''.12x3456'') = str ''0.123''"
    using t by (simp add: str_def)
  have e: "toFraction en_decimal (str ''.12x3456'') = spec_toFraction en_decimal (str ''.12x3456'')"
    using t by blast
  from d g v e show ?thesis
    by blast
qed

text \<open>
  C8. Suffix derivation. The constructor takes the parts after the first fraction part,
  by \<open>findIndex\<close>; when the probe has no fraction part \<open>findIndex\<close> is -1 and the
  slice starts at 0, so the suffix is the whole probe text. On \<open>host_en\<close> the Percent
  probe is \<open>-12,345,677%\<close>: the spec's suffix is \<open>%\<close>, the constructor's is the
  whole text.
\<close>

theorem suffix_without_fraction_part:
  "constructor host_en (options_en Percent None) = Inr en_percent \<and>
   suffix en_percent = str ''-12,345,677%'' \<and>
   spec_suffix (en_parts Percent 0 0 True probe) = str ''%''"
  by (simp add: constructor_en_percent probe_en_percent spec_suffix_def after_last_def
      join_values_def str_def)

text \<open>With a fraction part in the probe the two agree, as for the Decimal style.\<close>

lemma suffix_with_fraction_part:
  "constructor host_en (options_en Decimal None) = Inr en_decimal \<and>
   suffix en_decimal = spec_suffix (en_parts Decimal 0 3 True probe)"
  by (simp add: constructor_en_decimal probe_en_decimal spec_suffix_def after_last_def
      join_values_def str_def en_decimal_def)

text \<open>
  C9. Forced zero fraction bounds: whenever the constructor returns a profile, a profile
  without decimal symbol has both fraction bounds 0, whatever precision was asked; a
  profile with a decimal symbol and an explicit precision has both bounds equal to it.
\<close>

theorem forced_zero_fraction_bounds:
  assumes "constructor h options = Inr nf"
  shows "(decimalSymbol nf = None \<longrightarrow>
            minimumFractionDigits nf = 0 \<and> maximumFractionDigits nf = 0) \<and>
         (decimalSymbol nf \<noteq> None \<longrightarrow>
            (\<forall>n. precision options = Some n \<longrightarrow>
               minimumFractionDigits nf = n \<and> maximumFractionDigits nf = n))"
  using assms
  by (auto simp: constructor_def Let_def split: sum.splits)

theorem forced_zero_fraction_bounds_witness:
  "constructor host_en (options_en Percent (Some 4)) = Inr en_percent \<and>
   decimalSymbol en_percent = None \<and>
   minimumFractionDigits en_percent = 0 \<and> maximumFractionDigits en_percent = 0 \<and>
   constructor host_en (options_en Decimal (Some 2)) =
     Inr (en_decimal\<lparr>minimumFractionDigits := 2, maximumFractionDigits := 2\<rparr>) \<and>
   decimalSymbol (en_decimal\<lparr>minimumFractionDigits := 2, maximumFractionDigits := 2\<rparr>) \<noteq> None \<and>
   precision (options_en Decimal (Some 2)) = Some 2 \<and>
   minimumFractionDigits (en_decimal\<lparr>minimumFractionDigits := 2, maximumFractionDigits := 2\<rparr>) = 2 \<and>
   maximumFractionDigits (en_decimal\<lparr>minimumFractionDigits := 2, maximumFractionDigits := 2\<rparr>) = 2"
proof -
  have p: "constructor host_en (options_en Percent (Some 4)) = Inr en_percent"
    by (rule constructor_en_percent)
  have d: "constructor host_en (options_en Decimal (Some 2)) =
      Inr (en_decimal\<lparr>minimumFractionDigits := 2, maximumFractionDigits := 2\<rparr>)"
    by (simp add: constructor_en_decimal)
  show ?thesis
    using forced_zero_fraction_bounds [OF p] forced_zero_fraction_bounds [OF d] p d
    by (simp add: options_en_def)
qed



end
